theory Spec2Isabelle
  imports Main
begin

section \<open>The record store\<close>

text \<open>
  \<^verbatim>\<open>src/lib/octokit.ts\<close> reads and writes five Prisma tables. A table is the list of
  its rows in insertion order; a lookup (\<^verbatim>\<open>findFirst\<close>, the \<^verbatim>\<open>where\<close> of an
  \<^verbatim>\<open>upsert\<close>) returns the first row that matches. The generated row identifiers are
  drawn from one counter, \<open>nextId\<close>. Timestamps are kept as the strings the payload
  carries. The one-to-one workflow row of an item (\<^verbatim>\<open>githubItem.actionItem\<close>, nullable
  in the client's types) and the label rows joined to it (\<^verbatim>\<open>labelsOnItems\<close>, by label
  name) are stored inside the item row.
\<close>

type_synonym datetime = string

datatype GithubItemType = issue | pull_request

datatype exn = TypeError | PrismaError | RequestError

record Repository =
  repo_id :: nat
  repo_name :: string
  repo_owner :: string
  repo_url :: string

record User =
  usr_id :: nat
  githubUsername :: "string option"
  githubToken :: "string option"
  slackId :: "string option"

record ActionItem =
  ai_id :: nat
  status :: string
  totalReplies :: nat
  resolvedAt :: "datetime option"
  participants :: "nat list"

record GithubItem =
  gi_id :: nat
  authorId :: nat
  repositoryId :: nat
  nodeId :: string
  title :: string
  body :: string
  number :: int
  state :: string
  gi_type :: GithubItemType
  createdAt :: datetime
  updatedAt :: datetime
  actionItem :: "ActionItem option"
  labelsOnItems :: "string list"

record VolunteerDetail =
  assigneeId :: nat
  assignedOn :: datetime
  issueId :: nat

record db =
  repositories :: "Repository list"
  users :: "User list"
  githubItems :: "GithubItem list"
  labels :: "string list"
  volunteerDetails :: "VolunteerDetail list"
  nextId :: nat

section \<open>Webhook payload and configuration\<close>

text \<open>
  The payload fields \<^verbatim>\<open>createGithubItem\<close> reads. \<^verbatim>\<open>issue\<close>, \<^verbatim>\<open>pull_request\<close>,
  \<^verbatim>\<open>body\<close> and \<^verbatim>\<open>labels\<close> may be absent. \<^verbatim>\<open>getProjectName\<close> and
  \<^verbatim>\<open>getMaintainers\<close> come from \<^verbatim>\<open>./utils\<close>; they are parameters here. Of a
  maintainer entry only its \<^verbatim>\<open>github\<close> login is read (\<open>None\<close> where the entry or the
  field is undefined).
\<close>

record payload_item =
  node_id :: string
  item_title :: string
  item_body :: "string option"
  item_number :: int
  user_login :: string
  item_labels :: "string list option"
  created_at :: datetime
  updated_at :: datetime

record payload_repository =
  html_url :: string
  name :: string
  owner_login :: string

record payload =
  payload_issue :: "payload_item option"
  payload_pull_request :: "payload_item option"
  repository :: payload_repository

record config =
  getProjectName :: "string \<Rightarrow> string option"
  getMaintainers :: "string \<Rightarrow> string option list"

text \<open>\<^verbatim>\<open>const item = issue || pull_request\<close> (line 61).\<close>

definition item_of :: "payload \<Rightarrow> payload_item option" where
  "item_of p = (case payload_issue p of Some i \<Rightarrow> Some i | None \<Rightarrow> payload_pull_request p)"

text \<open>JavaScript truthiness of an optional string: \<^verbatim>\<open>!x\<close> holds for undefined, null and "".\<close>

definition falsy :: "string option \<Rightarrow> bool" where
  "falsy x = (x = None \<or> x = Some [])"

text \<open>\<^verbatim>\<open>x || ""\<close> on an optional string.\<close>

definition or_empty :: "string option \<Rightarrow> string" where
  "or_empty x = (case x of None \<Rightarrow> [] | Some v \<Rightarrow> v)"

text \<open>\<^verbatim>\<open>s.startsWith(p)\<close>.\<close>

definition startsWith :: "string \<Rightarrow> string \<Rightarrow> bool" where
  "startsWith s p = (take (length p) s = p)"

section \<open>Prisma operations used by the reconciler\<close>

text \<open>\<^verbatim>\<open>prisma.repository.upsert\<close> keyed on \<^verbatim>\<open>url\<close> (lines 66-70).\<close>

definition repository_upsert :: "db \<Rightarrow> payload_repository \<Rightarrow> db \<times> Repository" where
  "repository_upsert s r =
     (case find (\<lambda>x. repo_url x = html_url r) (repositories s) of
        None \<Rightarrow>
          (let row = \<lparr>repo_id = nextId s, repo_name = name r, repo_owner = owner_login r,
                      repo_url = html_url r\<rparr>
           in (s\<lparr>repositories := repositories s @ [row], nextId := Suc (nextId s)\<rparr>, row))
      | Some row \<Rightarrow>
          (s\<lparr>repositories :=
                map (\<lambda>x. if repo_url x = html_url r
                          then x\<lparr>repo_name := name r, repo_owner := owner_login r\<rparr> else x)
                    (repositories s)\<rparr>,
           row\<lparr>repo_name := name r, repo_owner := owner_login r\<rparr>))"

text \<open>\<^verbatim>\<open>prisma.user.findFirst({ where: { githubUsername } })\<close> (lines 76-78).\<close>

definition user_findFirst :: "db \<Rightarrow> string \<Rightarrow> User option" where
  "user_findFirst s login = find (\<lambda>u. githubUsername u = Some login) (users s)"

text \<open>\<^verbatim>\<open>prisma.user.create({ data: { githubUsername } })\<close> (lines 82-84).\<close>

definition user_create :: "db \<Rightarrow> string \<Rightarrow> db \<times> User" where
  "user_create s login =
     (let u = \<lparr>usr_id = nextId s, githubUsername = Some login, githubToken = None,
                slackId = None\<rparr>
      in (s\<lparr>users := users s @ [u], nextId := Suc (nextId s)\<rparr>, u))"

text \<open>\<^verbatim>\<open>prisma.actionItem.findFirst({ where: { githubItem: { nodeId } } })\<close> (lines 87-89).\<close>

definition actionItem_findFirst :: "db \<Rightarrow> string \<Rightarrow> ActionItem option" where
  "actionItem_findFirst s nid =
     (case find (\<lambda>g. nodeId g = nid) (githubItems s) of
        None \<Rightarrow> None
      | Some g \<Rightarrow> actionItem g)"

text \<open>\<^verbatim>\<open>label: { connectOrCreate: { where: { name }, create: { name } } }\<close> for each name.\<close>

fun connectOrCreate :: "string list \<Rightarrow> string list \<Rightarrow> string list" where
  "connectOrCreate ls [] = ls"
| "connectOrCreate ls (n # ns) =
     connectOrCreate (if List.member ls n then ls else ls @ [n]) ns"

text \<open>\<^verbatim>\<open>item.labels?.map(({ name }) => ...)\<close>: no nested create when the payload has no labels.\<close>

definition label_names :: "payload_item \<Rightarrow> string list" where
  "label_names item = (case item_labels item of None \<Rightarrow> [] | Some ls \<Rightarrow> ls)"

text \<open>The \<^verbatim>\<open>update\<close> branch of the upsert (lines 111-128), applied to the stored row.\<close>

definition update_item :: "payload_item \<Rightarrow> ActionItem option \<Rightarrow> GithubItem \<Rightarrow> GithubItem" where
  "update_item item found g =
     g\<lparr>state := ''open'',
       title := item_title item,
       body := or_empty (item_body item),
       updatedAt := updated_at item,
       labelsOnItems := label_names item,
       actionItem :=
         map_option
           (\<lambda>a. a\<lparr>status := (case found of
                                None \<Rightarrow> ''open''
                              | Some f \<Rightarrow> (if resolvedAt f = None then ''open'' else ''closed'')),
                   participants := []\<rparr>)
           (actionItem g)\<rparr>"

text \<open>The \<^verbatim>\<open>create\<close> branch of the upsert (lines 93-110).\<close>

definition create_item :: "db \<Rightarrow> payload_item \<Rightarrow> User \<Rightarrow> Repository \<Rightarrow> GithubItem" where
  "create_item s item author dbRepo =
     \<lparr>gi_id = nextId s,
      authorId = usr_id author,
      repositoryId = repo_id dbRepo,
      nodeId = node_id item,
      title = item_title item,
      body = or_empty (item_body item),
      number = item_number item,
      state = ''open'',
      gi_type = (if startsWith (node_id item) ''I_'' then issue else pull_request),
      createdAt = created_at item,
      updatedAt = updated_at item,
      actionItem = Some \<lparr>ai_id = Suc (nextId s), status = ''open'', totalReplies = 0,
                          resolvedAt = None, participants = []\<rparr>,
      labelsOnItems = label_names item\<rparr>"

text \<open>
  \<^verbatim>\<open>prisma.githubItem.upsert\<close> keyed on \<^verbatim>\<open>nodeId\<close> (lines 91-130). The nested
  \<^verbatim>\<open>actionItem: { update }\<close> of the update branch needs the related row: without one the
  client raises and the whole upsert, a single transaction, leaves the store as it was.
\<close>

definition githubItem_upsert ::
  "db \<Rightarrow> payload_item \<Rightarrow> User \<Rightarrow> Repository \<Rightarrow> ActionItem option \<Rightarrow> exn + db \<times> GithubItem" where
  "githubItem_upsert s item author dbRepo found =
     (case find (\<lambda>g. nodeId g = node_id item) (githubItems s) of
        None \<Rightarrow>
          (let g = create_item s item author dbRepo
           in Inr (s\<lparr>githubItems := githubItems s @ [g],
                     labels := connectOrCreate (labels s) (label_names item),
                     nextId := Suc (Suc (nextId s))\<rparr>, g))
      | Some g \<Rightarrow>
          (case actionItem g of
             None \<Rightarrow> Inl PrismaError
           | Some a \<Rightarrow>
               Inr (s\<lparr>githubItems :=
                         map (\<lambda>x. if nodeId x = node_id item then update_item item found x else x)
                             (githubItems s),
                       labels := connectOrCreate (labels s) (label_names item)\<rparr>,
                    update_item item found g)))"

section \<open>The reconciler: \<^verbatim>\<open>createGithubItem\<close>\<close>

text \<open>
  How a call of \<^verbatim>\<open>createGithubItem\<close> ends: an early \<^verbatim>\<open>return\<close> (unmonitored
  repository, line 64, or maintainer-authored item, line 73), a rejected promise, or the
  call of \<^verbatim>\<open>indexDocument\<close> on the workflow row's identifier (line 132).
\<close>

datatype sync_result = NoProject | ByMaintainer | Indexed nat | Threw exn

definition createGithubItem :: "config \<Rightarrow> db \<Rightarrow> payload \<Rightarrow> db \<times> sync_result" where
  "createGithubItem cfg s p =
     (let item = item_of p;
          project = getProjectName cfg (html_url (repository p))
      in if falsy project then (s, NoProject)
         else
           (case repository_upsert s (repository p) of
              (s1, dbRepo) \<Rightarrow>
                (let maintainers = getMaintainers cfg (html_url (repository p))
                 in case item of
                      None \<Rightarrow> (s1, Threw TypeError)
                    | Some item \<Rightarrow>
                        if find (\<lambda>m. m = Some (user_login item)) maintainers \<noteq> None
                        then (s1, ByMaintainer)
                        else
                          (case (case user_findFirst s1 (user_login item) of
                                   None \<Rightarrow> user_create s1 (user_login item)
                                 | Some u \<Rightarrow> (s1, u)) of
                             (s2, author) \<Rightarrow>
                               (let found = actionItem_findFirst s2 (node_id item)
                                in case githubItem_upsert s2 item author dbRepo found of
                                     Inl e \<Rightarrow> (s2, Threw e)
                                   | Inr (s3, githubItem) \<Rightarrow>
                                       (case actionItem githubItem of
                                          None \<Rightarrow> (s3, Threw TypeError)
                                        | Some a \<Rightarrow> (s3, Indexed (ai_id a))))))))"

section \<open>The remote platform and the messaging client\<close>

text \<open>
  Every call that leaves the process is a \<open>request\<close>; the \<open>world\<close> answers it, knowing
  the requests of this invocation so far and their answers, so that a call may succeed at
  one moment and fail at another. The texts of the three Slack messages are kept as their
  interpolated data. An answer of another shape than the call expects is a failed call.
\<close>

datatype slack_text =
    ConnectGithubFirst string
  | OneIssueAtATime "string option" "string option" "int option"
  | AssignedToIssue "int option" "string option" "string option" "string option"

datatype request =
    InstallationToken string string
  | IssuesGet string string string int
  | CreateComment string string string int string
  | AddAssignees string string string int "string list"
  | PostEphemeral string string slack_text
  | PostMessage string slack_text

datatype response = Fails | Token string | IssueData "string list option" | Done

type_synonym trace = "(request \<times> response) list"

type_synonym world = "trace \<Rightarrow> request \<Rightarrow> response"

text \<open>The requests that go to the code-hosting platform, as opposed to the Slack client.\<close>

fun remote_platform_call :: "request \<Rightarrow> bool" where
  "remote_platform_call (PostEphemeral user channel text) = False"
| "remote_platform_call (PostMessage channel text) = False"
| "remote_platform_call rq = True"

definition volunteering_comment :: string where
  "volunteering_comment = ''I'm volunteering to work on this issue.''"

definition call :: "world \<Rightarrow> trace \<Rightarrow> request \<Rightarrow> trace \<times> response" where
  "call w tr rq = (tr @ [(rq, w tr rq)], w tr rq)"

text \<open>
  \<^verbatim>\<open>getOctokitToken\<close> (lines 136-163): the empty token without any request when owner or
  repository name is empty, else the app's token exchange for that repository, here one
  request.
\<close>

definition getOctokitToken :: "world \<Rightarrow> trace \<Rightarrow> string \<Rightarrow> string \<Rightarrow> trace \<times> (exn + string)" where
  "getOctokitToken w tr owner repo =
     (if owner = [] \<or> repo = [] then (tr, Inr [])
      else (case call w tr (InstallationToken owner repo) of
              (tr1, r) \<Rightarrow>
                (case r of Token t \<Rightarrow> (tr1, Inr t) | _ \<Rightarrow> (tr1, Inl RequestError))))"

section \<open>The coordinator: \<^verbatim>\<open>assignIssueToVolunteer\<close>\<close>

text \<open>
  A candidate is an \<^verbatim>\<open>ActionItem\<close> with its \<^verbatim>\<open>githubItem\<close> included (nullable), and in
  it the item's \<^verbatim>\<open>repository\<close> (nullable). Of the included item the function reads
  \<^verbatim>\<open>id\<close>, \<^verbatim>\<open>number\<close> and \<^verbatim>\<open>repository\<close>.
\<close>

record candidate_githubItem =
  cgi_id :: nat
  cgi_number :: int
  cgi_repository :: "Repository option"

record candidate =
  githubItem :: "candidate_githubItem option"

text \<open>
  \<^verbatim>\<open>prisma.volunteerDetail.findFirst({ where: { assignee: { id } }, include: { issue } })\<close>
  (lines 392-397): the claim row, with the item it points to and that item's repository.
\<close>

definition volunteerDetail_findFirst :: "db \<Rightarrow> nat \<Rightarrow> VolunteerDetail option" where
  "volunteerDetail_findFirst s uid = find (\<lambda>v. assigneeId v = uid) (volunteerDetails s)"

definition included_issue :: "db \<Rightarrow> VolunteerDetail \<Rightarrow> GithubItem option" where
  "included_issue s v = find (\<lambda>g. gi_id g = issueId v) (githubItems s)"

definition included_repository :: "db \<Rightarrow> GithubItem option \<Rightarrow> Repository option" where
  "included_repository s g =
     (case g of None \<Rightarrow> None
      | Some g \<Rightarrow> find (\<lambda>r. repo_id r = repositoryId g) (repositories s))"

text \<open>
  \<^verbatim>\<open>prisma.volunteerDetail.create\<close> (lines 453-459). Each \<^verbatim>\<open>connect\<close> needs an
  identifier and a row that has it; otherwise the client raises and nothing is written.
\<close>

definition volunteerDetail_create :: "db \<Rightarrow> nat \<Rightarrow> datetime \<Rightarrow> nat option \<Rightarrow> exn + db" where
  "volunteerDetail_create s uid now iid =
     (case iid of
        None \<Rightarrow> Inl PrismaError
      | Some i \<Rightarrow>
          if find (\<lambda>u. usr_id u = uid) (users s) = None
             \<or> find (\<lambda>g. gi_id g = i) (githubItems s) = None
          then Inl PrismaError
          else Inr (s\<lparr>volunteerDetails :=
                        volunteerDetails s @ [\<lparr>assigneeId = uid, assignedOn = now, issueId = i\<rparr>]\<rparr>))"

text \<open>
  The \<^verbatim>\<open>for\<close> loop (lines 414-451) over the candidates left, with the volunteer's token
  and login. It ends with the trace and the exception that left it, if any; a
  \<^verbatim>\<open>break\<close> and running off the end of the list both end it with \<open>None\<close>.
\<close>

fun candidates_loop :: "world \<Rightarrow> string \<Rightarrow> string \<Rightarrow> trace \<Rightarrow> candidate list \<Rightarrow> trace \<times> exn option" where
  "candidates_loop w token login tr [] = (tr, None)"
| "candidates_loop w token login tr (item # rest) =
     (case githubItem item of
        None \<Rightarrow> candidates_loop w token login tr rest
      | Some gi \<Rightarrow>
          (let owner = (case cgi_repository gi of None \<Rightarrow> [] | Some r \<Rightarrow> repo_owner r);
               repo = (case cgi_repository gi of None \<Rightarrow> [] | Some r \<Rightarrow> repo_name r)
           in case getOctokitToken w tr owner repo of
                (tr1, Inl e) \<Rightarrow> (tr1, Some e)
              | (tr1, Inr t) \<Rightarrow>
                  (case call w tr1 (IssuesGet (''Bearer '' @ t) owner repo (cgi_number gi)) of
                     (tr2, r2) \<Rightarrow>
                       (case r2 of
                          IssueData assignees \<Rightarrow>
                            if (case assignees of None \<Rightarrow> False | Some as \<Rightarrow> 0 < length as)
                            then candidates_loop w token login tr2 rest
                            else
                              (case call w tr2
                                      (CreateComment (''Bearer '' @ token) owner repo (cgi_number gi)
                                         volunteering_comment) of
                                 (tr3, r3) \<Rightarrow>
                                   if r3 = Fails then (tr3, Some RequestError)
                                   else
                                     (case call w tr3
                                             (AddAssignees (''Bearer '' @ t) owner repo
                                                (cgi_number gi) [login]) of
                                        (tr4, r4) \<Rightarrow>
                                          if r4 = Fails then (tr4, Some RequestError)
                                          else (tr4, None)))
                        | _ \<Rightarrow> (tr2, Some RequestError)))))"

text \<open>
  What a call of \<^verbatim>\<open>assignIssueToVolunteer\<close> leaves behind: the store, the requests it
  made with their answers, the exceptions its \<^verbatim>\<open>catch\<close> logged, and whether its
  promise was rejected. \<open>now\<close> is the value of \<^verbatim>\<open>new Date()\<close>.
\<close>

record assign_result =
  ar_db :: db
  ar_calls :: trace
  ar_logged :: "exn list"
  ar_rejected :: bool

text \<open>\<^verbatim>\<open>return await client.chat.postEphemeral(...)\<close>, outside the \<^verbatim>\<open>try\<close>.\<close>

definition postEphemeral :: "world \<Rightarrow> db \<Rightarrow> string \<Rightarrow> string \<Rightarrow> slack_text \<Rightarrow> assign_result" where
  "postEphemeral w s user channel text =
     (case call w [] (PostEphemeral user channel text) of
        (tr, r) \<Rightarrow> \<lparr>ar_db = s, ar_calls = tr, ar_logged = [], ar_rejected = (r = Fails)\<rparr>)"

definition assignIssueToVolunteer ::
  "world \<Rightarrow> db \<Rightarrow> datetime \<Rightarrow> candidate list \<Rightarrow> User \<Rightarrow> string \<Rightarrow> string \<Rightarrow> assign_result" where
  "assignIssueToVolunteer w s now items user user_id channel_id =
     (if falsy (githubToken user) \<or> falsy (githubUsername user)
      then postEphemeral w s user_id channel_id (ConnectGithubFirst user_id)
      else
        (case volunteerDetail_findFirst s (usr_id user) of
           Some volunteeringAt \<Rightarrow>
             (let issue = included_issue s volunteeringAt;
                  repo = included_repository s issue
              in postEphemeral w s user_id channel_id
                   (OneIssueAtATime (map_option repo_owner repo) (map_option repo_name repo)
                      (map_option number issue)))
         | None \<Rightarrow>
             (case candidates_loop w (or_empty (githubToken user))
                     (or_empty (githubUsername user)) [] items of
                (tr, Some e) \<Rightarrow>
                  \<lparr>ar_db = s, ar_calls = tr, ar_logged = [e], ar_rejected = False\<rparr>
              | (tr, None) \<Rightarrow>
                  (case items of
                     [] \<Rightarrow> \<lparr>ar_db = s, ar_calls = tr, ar_logged = [TypeError], ar_rejected = False\<rparr>
                   | first # _ \<Rightarrow>
                       (case volunteerDetail_create s (usr_id user) now
                               (map_option cgi_id (githubItem first)) of
                          Inl e \<Rightarrow>
                            \<lparr>ar_db = s, ar_calls = tr, ar_logged = [e], ar_rejected = False\<rparr>
                        | Inr s1 \<Rightarrow>
                            (let repo = (case githubItem first of
                                           None \<Rightarrow> None | Some gi \<Rightarrow> cgi_repository gi)
                             in case call w tr
                                       (PostMessage user_id
                                          (AssignedToIssue
                                             (map_option cgi_number (githubItem first))
                                             (map_option repo_url repo)
                                             (map_option repo_name repo)
                                             (map_option repo_owner repo))) of
                                  (tr1, r) \<Rightarrow>
                                    \<lparr>ar_db = s1, ar_calls = tr1,
                                     ar_logged = (if r = Fails then [RequestError] else []),
                                     ar_rejected = False\<rparr>))))))"

section \<open>Concrete stores, payloads and platforms\<close>

text \<open>
  The values the scenarios below run on: one monitored repository \<open>R\<close> with one
  maintainer, an empty store, the event of the specification's scenario (item \<open>I_1\<close>,
  number 7), a store holding two items X (number 5) and Y (number 6) and a volunteer
  with a linked account, and a platform on which X already has an assignee.
\<close>

definition cfg_demo :: config where
  "cfg_demo =
     \<lparr>getProjectName = (\<lambda>url. if url = ''R'' then Some ''demo'' else None),
      getMaintainers = (\<lambda>url. if url = ''R'' then [Some ''maint''] else [])\<rparr>"

definition empty_db :: db where
  "empty_db = \<lparr>repositories = [], users = [], githubItems = [], labels = [],
               volunteerDetails = [], nextId = 0\<rparr>"

definition item_I1 :: "string \<Rightarrow> string list \<Rightarrow> datetime \<Rightarrow> payload_item" where
  "item_I1 login ls t =
     \<lparr>node_id = ''I_1'', item_title = ''crash'', item_body = None, item_number = 7,
      user_login = login, item_labels = Some ls, created_at = ''T1'', updated_at = t\<rparr>"

definition event :: "payload_item \<Rightarrow> payload" where
  "event item =
     \<lparr>payload_issue = Some item, payload_pull_request = None,
      repository = \<lparr>html_url = ''R'', name = ''slacker'', owner_login = ''hackclub''\<rparr>\<rparr>"

definition repo_R :: Repository where
  "repo_R = \<lparr>repo_id = 0, repo_name = ''slacker'', repo_owner = ''hackclub'', repo_url = ''R''\<rparr>"

definition volunteer :: User where
  "volunteer = \<lparr>usr_id = 1, githubUsername = Some ''vol'', githubToken = Some ''tok'',
                slackId = Some ''U1''\<rparr>"

definition volunteer_unlinked :: User where
  "volunteer_unlinked = volunteer\<lparr>githubToken := None\<rparr>"

definition stored_item :: "nat \<Rightarrow> string \<Rightarrow> int \<Rightarrow> datetime option \<Rightarrow> GithubItem" where
  "stored_item i nid n resolved =
     \<lparr>gi_id = i, authorId = 9, repositoryId = 0, nodeId = nid, title = ''t'', body = [],
      number = n, state = ''closed'', gi_type = issue, createdAt = ''T0'', updatedAt = ''T0'',
      actionItem = Some \<lparr>ai_id = Suc i, status = ''open'', totalReplies = 2,
                          resolvedAt = resolved, participants = [4, 5]\<rparr>,
      labelsOnItems = [''A'', ''B'']\<rparr>"

definition db_XY :: db where
  "db_XY = \<lparr>repositories = [repo_R], users = [volunteer],
            githubItems = [stored_item 10 ''I_X'' 5 None, stored_item 20 ''I_Y'' 6 None],
            labels = [''A'', ''B''], volunteerDetails = [], nextId = 30\<rparr>"

definition db_claimed :: db where
  "db_claimed =
     db_XY\<lparr>volunteerDetails := [\<lparr>assigneeId = 1, assignedOn = ''T0'', issueId = 20\<rparr>]\<rparr>"

definition db_resolved :: db where
  "db_resolved = \<lparr>repositories = [repo_R], users = [],
            githubItems = [stored_item 10 ''I_1'' 7 (Some ''T9'')],
            labels = [''A'', ''B''], volunteerDetails = [], nextId = 30\<rparr>"

definition cand_X :: candidate where
  "cand_X = \<lparr>githubItem = Some \<lparr>cgi_id = 10, cgi_number = 5, cgi_repository = Some repo_R\<rparr>\<rparr>"

definition cand_Y :: candidate where
  "cand_Y = \<lparr>githubItem = Some \<lparr>cgi_id = 20, cgi_number = 6, cgi_repository = Some repo_R\<rparr>\<rparr>"

text \<open>A platform on which issue 5 already has an assignee, issue 6 has none, and no call fails.\<close>

definition world_X_taken :: world where
  "world_X_taken tr rq =
     (case rq of
        InstallationToken owner repo \<Rightarrow> Token ''app''
      | IssuesGet auth owner repo n \<Rightarrow> IssueData (if n = 5 then Some [''bob''] else Some [])
      | _ \<Rightarrow> Done)"

lemmas scenario =
  cfg_demo_def empty_db_def item_I1_def event_def repo_R_def volunteer_def
  volunteer_unlinked_def stored_item_def db_XY_def db_claimed_def db_resolved_def
  cand_X_def cand_Y_def world_X_taken_def

lemmas reconcile_defs =
  createGithubItem_def repository_upsert_def user_findFirst_def user_create_def
  actionItem_findFirst_def githubItem_upsert_def create_item_def update_item_def
  label_names_def item_of_def falsy_def or_empty_def startsWith_def Let_def

lemmas assign_defs =
  assignIssueToVolunteer_def postEphemeral_def call_def getOctokitToken_def
  volunteerDetail_findFirst_def volunteerDetail_create_def included_issue_def
  included_repository_def falsy_def or_empty_def Let_def

section \<open>Lookups and updates on tables\<close>

lemma find_append_eq:
  "find P (xs @ ys) = (case find P xs of None \<Rightarrow> find P ys | Some x \<Rightarrow> Some x)"
  by (induction xs) auto

lemma find_holds: "find K xs = Some x \<Longrightarrow> K x"
  by (induction xs) (auto split: if_splits)

lemma find_map_if:
  assumes "\<And>x. K (f x) = K x"
  shows "find K (map (\<lambda>x. if K x then f x else x) xs) = map_option f (find K xs)"
  using assms by (induction xs) auto

lemma map_if_none:
  "find K xs = None \<Longrightarrow> map (\<lambda>x. if K x then f x else x) xs = xs"
  by (induction xs) (auto split: if_splits)

lemma map_if_idem:
  assumes "\<And>x. K (f x) = K x" and "\<And>x. K x \<Longrightarrow> g (f x) = f x"
  shows "map (\<lambda>x. if K x then g x else x) (map (\<lambda>x. if K x then f x else x) xs)
         = map (\<lambda>x. if K x then f x else x) xs"
  using assms by (induction xs) auto

lemma filter_map_if:
  assumes "\<And>x. K (f x) = K x"
  shows "filter (\<lambda>x. \<not> K x) (map (\<lambda>x. if K x then f x else x) xs) = filter (\<lambda>x. \<not> K x) xs"
  using assms by (induction xs) auto

lemma set_connectOrCreate: "set (connectOrCreate ls ns) = set ls \<union> set ns"
  by (induction ns arbitrary: ls) auto

lemma connectOrCreate_known: "set ns \<subseteq> set ls \<Longrightarrow> connectOrCreate ls ns = ls"
  by (induction ns arbitrary: ls) auto

lemma connectOrCreate_idem:
  "connectOrCreate (connectOrCreate ls ns) ns = connectOrCreate ls ns"
  by (rule connectOrCreate_known) (simp add: set_connectOrCreate)

section \<open>The steps of the reconciler\<close>

text \<open>The repository upsert touches the repository table and the counter only.\<close>

lemma repository_upsert_frame:
  "repository_upsert s r = (s1, dbRepo) \<Longrightarrow>
     users s1 = users s \<and> githubItems s1 = githubItems s \<and> labels s1 = labels s
     \<and> volunteerDetails s1 = volunteerDetails s"
  by (auto simp: repository_upsert_def Let_def split: option.splits)

lemma repository_upsert_others:
  "repository_upsert s r = (s1, dbRepo) \<Longrightarrow>
     filter (\<lambda>x. repo_url x \<noteq> html_url r) (repositories s1)
       = filter (\<lambda>x. repo_url x \<noteq> html_url r) (repositories s)"
  by (auto simp: repository_upsert_def Let_def filter_map_if split: option.splits)

lemma repository_upsert_row:
  "repository_upsert s r = (s1, dbRepo) \<Longrightarrow>
     find (\<lambda>x. repo_url x = html_url r) (repositories s1) = Some dbRepo
     \<and> repo_name dbRepo = name r \<and> repo_owner dbRepo = owner_login r
     \<and> repo_url dbRepo = html_url r"
  by (cases "find (\<lambda>x. repo_url x = html_url r) (repositories s)")
     (auto simp: repository_upsert_def Let_def find_append_eq find_map_if dest: find_holds)

text \<open>Upserting again, into any store with the same repository table, changes nothing.\<close>

lemma repository_upsert_again:
  assumes "repositories t = repositories (fst (repository_upsert s r))"
  shows "repository_upsert t r = (t, snd (repository_upsert s r))"
proof (cases "find (\<lambda>x. repo_url x = html_url r) (repositories s)")
  case None
  then show ?thesis using assms
    by (simp add: repository_upsert_def Let_def find_append_eq map_if_none)
next
  case (Some row)
  then show ?thesis using assms
    by (simp add: repository_upsert_def find_map_if map_if_idem)
qed

lemma author_frame:
  "(case user_findFirst s login of None \<Rightarrow> user_create s login | Some u \<Rightarrow> (s, u)) = (s2, author)
     \<Longrightarrow> repositories s2 = repositories s \<and> githubItems s2 = githubItems s"
  by (auto simp: user_create_def Let_def split: option.splits)

lemma author_again:
  assumes "(case user_findFirst s login of None \<Rightarrow> user_create s login | Some u \<Rightarrow> (s, u))
             = (s2, author)"
    and "users t = users s2"
  shows "(case user_findFirst t login of None \<Rightarrow> user_create t login | Some u \<Rightarrow> (t, u))
           = (t, author)"
  using assms
  by (auto simp: user_findFirst_def user_create_def Let_def find_append_eq split: option.splits)

lemma update_item_nodeId: "nodeId (update_item item found g) = nodeId g"
  by (simp add: update_item_def)

lemma update_item_twice:
  assumes "(case found' of None \<Rightarrow> None | Some f \<Rightarrow> resolvedAt f)
             = (case found of None \<Rightarrow> None | Some f \<Rightarrow> resolvedAt f)"
  shows "update_item item found' (update_item item found g) = update_item item found g"
  using assms
  by (cases "actionItem g"; cases found; cases found') (auto simp: update_item_def)

lemma githubItem_upsert_frame:
  "githubItem_upsert s item author dbRepo found = Inr (s3, g) \<Longrightarrow>
     repositories s3 = repositories s \<and> users s3 = users s"
  by (auto simp: githubItem_upsert_def Let_def split: option.splits)

text \<open>
  After an item upsert that went through, the same upsert finds the item, takes the
  update branch and leaves the store as it is.
\<close>

lemma githubItem_upsert_again:
  assumes "githubItem_upsert s item author dbRepo (actionItem_findFirst s (node_id item))
             = Inr (s3, g)"
  shows "\<exists>g'. githubItem_upsert s3 item author' dbRepo' (actionItem_findFirst s3 (node_id item))
                = Inr (s3, g')"
proof (cases "find (\<lambda>g. nodeId g = node_id item) (githubItems s)")
  case None
  then show ?thesis using assms
    by (auto simp: githubItem_upsert_def actionItem_findFirst_def Let_def find_append_eq
        create_item_def update_item_def map_if_none connectOrCreate_idem)
next
  case (Some g0)
  show ?thesis
  proof (cases "actionItem g0")
    case None
    with Some assms show ?thesis by (simp add: githubItem_upsert_def)
  next
    case (Some a)
    let ?K = "\<lambda>x. nodeId x = node_id item"
    let ?f = "update_item item (Some a)"
    from \<open>find ?K (githubItems s) = Some g0\<close> Some assms
    have s3: "s3 = s\<lparr>githubItems := map (\<lambda>x. if ?K x then ?f x else x) (githubItems s),
                      labels := connectOrCreate (labels s) (label_names item)\<rparr>"
      by (simp add: githubItem_upsert_def actionItem_findFirst_def)
    have found: "find ?K (githubItems s3) = Some (?f g0)"
      using \<open>find ?K (githubItems s) = Some g0\<close>
      by (simp add: s3 find_map_if update_item_nodeId)
    obtain a' where a': "actionItem (?f g0) = Some a'" "resolvedAt a' = resolvedAt a"
      using Some by (simp add: update_item_def)
    have "map (\<lambda>x. if ?K x then update_item item (Some a') x else x) (githubItems s3)
            = githubItems s3"
      unfolding s3 by (simp add: map_if_idem update_item_nodeId update_item_twice a')
    then show ?thesis
      using found a'
      by (simp add: githubItem_upsert_def actionItem_findFirst_def s3 connectOrCreate_idem)
  qed
qed

text \<open>
  A payload of a monitored repository whose item is present and not written by a
  maintainer reaches the item upsert, on a store with the item table it started from.
\<close>

lemma reaches_upsert:
  assumes "\<not> falsy (getProjectName cfg (html_url (repository p)))"
    and "item_of p = Some item"
    and "find (\<lambda>m. m = Some (user_login item)) (getMaintainers cfg (html_url (repository p)))
           = None"
  obtains s2 author dbRepo where "githubItems s2 = githubItems s"
    and "createGithubItem cfg s p =
          (case githubItem_upsert s2 item author dbRepo (actionItem_findFirst s2 (node_id item)) of
             Inl e \<Rightarrow> (s2, Threw e)
           | Inr (s3, g) \<Rightarrow>
               (case actionItem g of None \<Rightarrow> (s3, Threw TypeError)
                | Some a \<Rightarrow> (s3, Indexed (ai_id a))))"
proof -
  obtain s1 dbRepo where up: "repository_upsert s (repository p) = (s1, dbRepo)"
    by (cases "repository_upsert s (repository p)")
  obtain s2 author where au: "(case user_findFirst s1 (user_login item) of
        None \<Rightarrow> user_create s1 (user_login item) | Some u \<Rightarrow> (s1, u)) = (s2, author)"
    by (cases "case user_findFirst s1 (user_login item) of
        None \<Rightarrow> user_create s1 (user_login item) | Some u \<Rightarrow> (s1, u)")
  have "githubItems s2 = githubItems s"
    using repository_upsert_frame [OF up] author_frame [OF au] by simp
  moreover have "createGithubItem cfg s p =
          (case githubItem_upsert s2 item author dbRepo (actionItem_findFirst s2 (node_id item)) of
             Inl e \<Rightarrow> (s2, Threw e)
           | Inr (s3, g) \<Rightarrow>
               (case actionItem g of None \<Rightarrow> (s3, Threw TypeError)
                | Some a \<Rightarrow> (s3, Indexed (ai_id a))))"
    using assms up au by (simp add: createGithubItem_def)
  ultimately show thesis using that by blast
qed

lemma update_branch:
  assumes "\<not> falsy (getProjectName cfg (html_url (repository p)))"
    and "item_of p = Some item"
    and "find (\<lambda>m. m = Some (user_login item)) (getMaintainers cfg (html_url (repository p)))
           = None"
    and "find (\<lambda>g. nodeId g = node_id item) (githubItems s) = Some g0"
    and "actionItem g0 = Some a"
  shows "find (\<lambda>g. nodeId g = node_id item) (githubItems (fst (createGithubItem cfg s p)))
           = Some (update_item item (Some a) g0)
    \<and> snd (createGithubItem cfg s p) = Indexed (ai_id a)"
proof -
  obtain s2 author dbRepo where s2: "githubItems s2 = githubItems s"
    and run: "createGithubItem cfg s p =
          (case githubItem_upsert s2 item author dbRepo (actionItem_findFirst s2 (node_id item)) of
             Inl e \<Rightarrow> (s2, Threw e)
           | Inr (s3, g) \<Rightarrow>
               (case actionItem g of None \<Rightarrow> (s3, Threw TypeError)
                | Some a \<Rightarrow> (s3, Indexed (ai_id a))))"
    using reaches_upsert [OF assms(1-3)] by blast
  have up: "githubItem_upsert s2 item author dbRepo (actionItem_findFirst s2 (node_id item)) =
          Inr (s2\<lparr>githubItems :=
                    map (\<lambda>x. if nodeId x = node_id item then update_item item (Some a) x else x)
                        (githubItems s),
                  labels := connectOrCreate (labels s2) (label_names item)\<rparr>,
               update_item item (Some a) g0)"
    using assms(4,5) by (simp add: githubItem_upsert_def actionItem_findFirst_def s2)
  obtain b where b: "actionItem (update_item item (Some a) g0) = Some b" "ai_id b = ai_id a"
    using assms(5) by (simp add: update_item_def)
  have res: "createGithubItem cfg s p =
          (s2\<lparr>githubItems :=
                 map (\<lambda>x. if nodeId x = node_id item then update_item item (Some a) x else x)
                     (githubItems s),
               labels := connectOrCreate (labels s2) (label_names item)\<rparr>,
           Indexed (ai_id a))"
    unfolding run up by (simp add: b)
  have "find (\<lambda>g. nodeId g = node_id item)
          (map (\<lambda>x. if nodeId x = node_id item then update_item item (Some a) x else x)
               (githubItems s)) = Some (update_item item (Some a) g0)"
    using assms(4) by (simp add: find_map_if update_item_nodeId)
  then show ?thesis
    unfolding res by simp
qed

lemma create_branch:
  assumes "\<not> falsy (getProjectName cfg (html_url (repository p)))"
    and "item_of p = Some item"
    and "find (\<lambda>m. m = Some (user_login item)) (getMaintainers cfg (html_url (repository p)))
           = None"
    and "find (\<lambda>g. nodeId g = node_id item) (githubItems s) = None"
  shows "\<exists>t author dbRepo.
           find (\<lambda>g. nodeId g = node_id item) (githubItems (fst (createGithubItem cfg s p)))
             = Some (create_item t item author dbRepo)"
proof -
  obtain s2 author dbRepo where s2: "githubItems s2 = githubItems s"
    and run: "createGithubItem cfg s p =
          (case githubItem_upsert s2 item author dbRepo (actionItem_findFirst s2 (node_id item)) of
             Inl e \<Rightarrow> (s2, Threw e)
           | Inr (s3, g) \<Rightarrow>
               (case actionItem g of None \<Rightarrow> (s3, Threw TypeError)
                | Some a \<Rightarrow> (s3, Indexed (ai_id a))))"
    using reaches_upsert [OF assms(1-3)] by blast
  have "find (\<lambda>g. nodeId g = node_id item) (githubItems (fst (createGithubItem cfg s p)))
             = Some (create_item s2 item author dbRepo)"
    using assms(4) unfolding run
    by (simp add: githubItem_upsert_def actionItem_findFirst_def s2 Let_def find_append_eq
        create_item_def)
  then show ?thesis by blast
qed

section \<open>The coordinator's claims\<close>

text \<open>
  Claim C1: by an eligible volunteer (linked identity, no existing claim), a Volunteer
  Claim row is written only if the remote \<^verbatim>\<open>addAssignees\<close> call returned successfully
  for some candidate; if every candidate is skipped, no claim is created and the outcome
  is never "assigned".

  The code does not keep it. The loop has no record of whether it left by \<^verbatim>\<open>break\<close>;
  the statements after it run whenever no exception was raised. With the single
  candidate X, whose remote issue already has an assignee, the loop skips X and ends;
  then a claim row for X is written and the "You have been assigned" message is posted,
  and the trace holds no \<^verbatim>\<open>addAssignees\<close> request at all.
\<close>

theorem claim_written_when_every_candidate_is_skipped:
  "\<not> falsy (githubToken volunteer) \<and> \<not> falsy (githubUsername volunteer)
   \<and> volunteerDetail_findFirst db_XY (usr_id volunteer) = None
   \<and> assignIssueToVolunteer world_X_taken db_XY ''now'' [cand_X] volunteer ''U1'' ''C1'' =
       \<lparr>ar_db = db_XY\<lparr>volunteerDetails :=
                         [\<lparr>assigneeId = 1, assignedOn = ''now'', issueId = 10\<rparr>]\<rparr>,
        ar_calls =
          [(InstallationToken ''hackclub'' ''slacker'', Token ''app''),
           (IssuesGet ''Bearer app'' ''hackclub'' ''slacker'' 5, IssueData (Some [''bob''])),
           (PostMessage ''U1''
              (AssignedToIssue (Some 5) (Some ''R'') (Some ''slacker'') (Some ''hackclub'')),
            Done)],
        ar_logged = [], ar_rejected = False\<rparr>"
  by (simp add: assign_defs scenario)

text \<open>
  Claim C2: the Volunteer Claim references the claimed candidate; for the candidate list
  [X, Y] where X already has a remote assignee and Y has none, the claim is created for
  Y only.

  The code does not keep it. The comment and the assignment go to Y (issue 6), but the
  row is connected to \<^verbatim>\<open>items[0].githubItem?.id\<close>, which is X (row 10, issue 5), and
  the message names X.
\<close>

theorem claim_references_first_candidate_not_claimed_one:
  "map_option cgi_id (githubItem cand_X) = Some 10
   \<and> map_option cgi_id (githubItem cand_Y) = Some 20
   \<and> volunteerDetails
       (ar_db (assignIssueToVolunteer world_X_taken db_XY ''now'' [cand_X, cand_Y] volunteer
                 ''U1'' ''C1''))
     = [\<lparr>assigneeId = 1, assignedOn = ''now'', issueId = 10\<rparr>]
   \<and> map fst
       (ar_calls (assignIssueToVolunteer world_X_taken db_XY ''now'' [cand_X, cand_Y] volunteer
                    ''U1'' ''C1''))
     = [InstallationToken ''hackclub'' ''slacker'',
        IssuesGet ''Bearer app'' ''hackclub'' ''slacker'' 5,
        InstallationToken ''hackclub'' ''slacker'',
        IssuesGet ''Bearer app'' ''hackclub'' ''slacker'' 6,
        CreateComment ''Bearer tok'' ''hackclub'' ''slacker'' 6 volunteering_comment,
        AddAssignees ''Bearer app'' ''hackclub'' ''slacker'' 6 [''vol''],
        PostMessage ''U1''
          (AssignedToIssue (Some 5) (Some ''R'') (Some ''slacker'') (Some ''hackclub''))]"
  by (simp add: assign_defs scenario)

section \<open>The reconciler's claims\<close>

text \<open>
  Claim C3, as stated: an event whose author is a maintainer of a monitored repository
  produces no Item and leaves the Repository records unchanged.

  The second half fails: the repository upsert (lines 66-70) runs before the maintainer
  check (lines 72-73). On the empty store a maintainer's event leaves one repository row.
\<close>

theorem maintainer_event_creates_repository:
  "getProjectName cfg_demo (html_url (repository (event (item_I1 ''maint'' [''bug''] ''T1''))))
     = Some ''demo''
   \<and> getMaintainers cfg_demo (html_url (repository (event (item_I1 ''maint'' [''bug''] ''T1''))))
     = [Some ''maint'']
   \<and> map_option user_login (item_of (event (item_I1 ''maint'' [''bug''] ''T1''))) = Some ''maint''
   \<and> repositories empty_db = []
   \<and> repositories
       (fst (createGithubItem cfg_demo empty_db (event (item_I1 ''maint'' [''bug''] ''T1''))))
     = [repo_R]"
  by (simp add: reconcile_defs scenario)

text \<open>
  Claim C3, amended: an event whose author is a maintainer of a monitored repository
  ends at the maintainer check; it produces no Item (the item, user, label and claim
  tables are unchanged), and it changes the Repository records only by the upsert of the
  payload's repository: the rows of every other URL are unchanged, and the row of the
  payload's URL exists afterwards with the payload's name and owner.
\<close>

theorem maintainer_event_only_upserts_repository:
  assumes "\<not> falsy (getProjectName cfg (html_url (repository p)))"
    and "item_of p = Some item"
    and "find (\<lambda>m. m = Some (user_login item)) (getMaintainers cfg (html_url (repository p)))
           \<noteq> None"
  shows "snd (createGithubItem cfg s p) = ByMaintainer
    \<and> githubItems (fst (createGithubItem cfg s p)) = githubItems s
    \<and> users (fst (createGithubItem cfg s p)) = users s
    \<and> labels (fst (createGithubItem cfg s p)) = labels s
    \<and> volunteerDetails (fst (createGithubItem cfg s p)) = volunteerDetails s
    \<and> filter (\<lambda>x. repo_url x \<noteq> html_url (repository p))
         (repositories (fst (createGithubItem cfg s p)))
        = filter (\<lambda>x. repo_url x \<noteq> html_url (repository p)) (repositories s)
    \<and> (\<exists>row. find (\<lambda>x. repo_url x = html_url (repository p))
                 (repositories (fst (createGithubItem cfg s p))) = Some row
          \<and> repo_name row = name (repository p)
          \<and> repo_owner row = owner_login (repository p))"
proof -
  obtain s1 dbRepo where up: "repository_upsert s (repository p) = (s1, dbRepo)"
    by (cases "repository_upsert s (repository p)")
  have "createGithubItem cfg s p = (s1, ByMaintainer)"
    using assms up by (simp add: createGithubItem_def)
  then show ?thesis
    using repository_upsert_frame [OF up] repository_upsert_others [OF up]
      repository_upsert_row [OF up] by simp
qed

text \<open>The amended claim on a store that already holds the repository and two items.\<close>

theorem maintainer_event_only_upserts_repository_witness:
  "snd (createGithubItem cfg_demo db_XY (event (item_I1 ''maint'' [''bug''] ''T1''))) = ByMaintainer
   \<and> githubItems (fst (createGithubItem cfg_demo db_XY (event (item_I1 ''maint'' [''bug''] ''T1''))))
       = githubItems db_XY
   \<and> repositories (fst (createGithubItem cfg_demo db_XY (event (item_I1 ''maint'' [''bug''] ''T1''))))
       = [repo_R]"
proof -
  let ?item = "item_I1 ''maint'' [''bug''] ''T1''"
  have h1: "\<not> falsy (getProjectName cfg_demo (html_url (repository (event ?item))))"
    by (simp add: scenario falsy_def)
  have h2: "item_of (event ?item) = Some ?item"
    by (simp add: scenario item_of_def)
  have h3: "find (\<lambda>m. m = Some (user_login ?item))
              (getMaintainers cfg_demo (html_url (repository (event ?item)))) \<noteq> None"
    by (simp add: scenario)
  have "repositories (fst (createGithubItem cfg_demo db_XY (event ?item))) = [repo_R]"
    by (simp add: reconcile_defs scenario)
  with maintainer_event_only_upserts_repository [OF h1 h2 h3, of db_XY] show ?thesis by simp
qed

text \<open>
  Claim C4: reconciliation is idempotent. For every payload, configuration and store,
  running \<^verbatim>\<open>createGithubItem\<close> on the payload twice leaves the same store as running it
  once: the same items with their workflow rows and label associations, and the same
  repositories, users and labels as well. This covers every way the call can end (the
  unmonitored repository, the maintainer's item, a payload without an item, the upsert
  that raises, the create branch and the update branch).
\<close>

theorem reconcile_idempotent:
  "fst (createGithubItem cfg (fst (createGithubItem cfg s p)) p) = fst (createGithubItem cfg s p)"
proof (cases "falsy (getProjectName cfg (html_url (repository p)))")
  case True
  then show ?thesis by (simp add: createGithubItem_def)
next
  case monitored: False
  obtain s1 dbRepo where up: "repository_upsert s (repository p) = (s1, dbRepo)"
    by (cases "repository_upsert s (repository p)")
  have again: "repository_upsert t (repository p) = (t, dbRepo)"
    if "repositories t = repositories s1" for t
    using repository_upsert_again [of t s "repository p"] that up by simp
  show ?thesis
  proof (cases "item_of p")
    case None
    then show ?thesis using monitored up again [of s1]
      by (simp add: createGithubItem_def)
  next
    case (Some item)
    show ?thesis
    proof (cases "find (\<lambda>m. m = Some (user_login item))
                    (getMaintainers cfg (html_url (repository p))) = None")
      case False
      then show ?thesis using monitored up Some again [of s1]
        by (simp add: createGithubItem_def)
    next
      case True
      obtain s2 author where au: "(case user_findFirst s1 (user_login item) of
            None \<Rightarrow> user_create s1 (user_login item) | Some u \<Rightarrow> (s1, u)) = (s2, author)"
        by (cases "case user_findFirst s1 (user_login item) of
            None \<Rightarrow> user_create s1 (user_login item) | Some u \<Rightarrow> (s1, u)")
      have s2: "repositories s2 = repositories s1"
        using author_frame [OF au] by simp
      show ?thesis
      proof (cases "githubItem_upsert s2 item author dbRepo
                      (actionItem_findFirst s2 (node_id item))")
        case (Inl e)
        have "createGithubItem cfg s p = (s2, Threw e)"
          using monitored up Some True au Inl by (simp add: createGithubItem_def)
        moreover have "fst (createGithubItem cfg s2 p) = s2"
          using monitored again [OF s2] Some True author_again [OF au refl] Inl
          by (simp add: createGithubItem_def)
        ultimately show ?thesis by simp
      next
        case (Inr r)
        obtain s3 g where r: "r = (s3, g)" by (cases r)
        have first: "fst (createGithubItem cfg s p) = s3"
          using monitored up Some True au Inr r
          by (simp add: createGithubItem_def split: option.splits)
        have s3: "repositories s3 = repositories s1" "users s3 = users s2"
          using githubItem_upsert_frame [of s2 item author dbRepo _ s3 g] Inr r s2
          by simp_all
        obtain g' where
          "githubItem_upsert s3 item author dbRepo (actionItem_findFirst s3 (node_id item))
             = Inr (s3, g')"
          using githubItem_upsert_again [of s2 item author dbRepo s3 g author dbRepo] Inr r
          by auto
        then have "fst (createGithubItem cfg s3 p) = s3"
          using monitored again [OF s3(1)] Some True author_again [OF au s3(2)]
          by (simp add: createGithubItem_def split: option.splits)
        with first show ?thesis by simp
      qed
    qed
  qed
qed

text \<open>
  Claim C5: on every reconciliation update of an existing Item, the stored label
  associations are replaced wholesale with exactly the labels of the incoming payload.
  The update is the run that reaches the upsert (monitored repository, item present and
  not a maintainer's) and finds the item stored with its workflow row, as the create
  branch stores every item; afterwards the item's labels are the payload's, whatever
  they were before.
\<close>

theorem update_replaces_labels:
  assumes "\<not> falsy (getProjectName cfg (html_url (repository p)))"
    and "item_of p = Some item"
    and "find (\<lambda>m. m = Some (user_login item)) (getMaintainers cfg (html_url (repository p)))
           = None"
    and "find (\<lambda>g. nodeId g = node_id item) (githubItems s) = Some g0"
    and "actionItem g0 = Some a"
  shows "\<exists>g. find (\<lambda>g. nodeId g = node_id item) (githubItems (fst (createGithubItem cfg s p)))
               = Some g
           \<and> labelsOnItems g = label_names item"
  using update_branch [OF assms] by (simp add: update_item_def)

text \<open>
  The specification's example: the item reconciled with labels A and B, then with B and
  C, is left with exactly B and C.
\<close>

theorem update_replaces_labels_witness:
  "\<exists>g. find (\<lambda>g. nodeId g = ''I_1'')
          (githubItems
            (fst (createGithubItem cfg_demo
                   (fst (createGithubItem cfg_demo empty_db
                           (event (item_I1 ''alice'' [''A'', ''B''] ''T1''))))
                   (event (item_I1 ''alice'' [''B'', ''C''] ''T2''))))) = Some g
        \<and> labelsOnItems g = [''B'', ''C'']"
proof -
  let ?item = "item_I1 ''alice'' [''B'', ''C''] ''T2''"
  let ?s = "fst (createGithubItem cfg_demo empty_db (event (item_I1 ''alice'' [''A'', ''B''] ''T1'')))"
  have h1: "\<not> falsy (getProjectName cfg_demo (html_url (repository (event ?item))))"
    by (simp add: scenario falsy_def)
  have h2: "item_of (event ?item) = Some ?item"
    by (simp add: scenario item_of_def)
  have h3: "find (\<lambda>m. m = Some (user_login ?item))
              (getMaintainers cfg_demo (html_url (repository (event ?item)))) = None"
    by (simp add: scenario)
  have s: "githubItems ?s =
      [\<lparr>gi_id = 2, authorId = 1, repositoryId = 0, nodeId = ''I_1'', title = ''crash'', body = [],
        number = 7, state = ''open'', gi_type = issue, createdAt = ''T1'', updatedAt = ''T1'',
        actionItem = Some \<lparr>ai_id = 3, status = ''open'', totalReplies = 0, resolvedAt = None,
                            participants = []\<rparr>,
        labelsOnItems = [''A'', ''B'']\<rparr>]"
    by (simp add: reconcile_defs scenario)
  have h4: "find (\<lambda>g. nodeId g = node_id ?item) (githubItems ?s) = Some (hd (githubItems ?s))"
    unfolding s by (simp add: scenario)
  have h5: "actionItem (hd (githubItems ?s)) =
      Some \<lparr>ai_id = 3, status = ''open'', totalReplies = 0, resolvedAt = None, participants = []\<rparr>"
    unfolding s by simp
  have n: "node_id ?item = ''I_1''" "label_names ?item = [''B'', ''C'']"
    by (simp_all add: item_I1_def label_names_def)
  from update_replaces_labels [OF h1 h2 h3 h4 h5] show ?thesis
    unfolding n by auto
qed

text \<open>
  Claim C8: on the update path for an existing Item, the Workflow Record's status is set
  to "closed" exactly when its resolution timestamp was previously set, and to "open"
  otherwise, and its participant list is cleared. (\<^verbatim>\<open>resolvedAt\<close> is a date or null,
  so it is truthy exactly when it is set.)
\<close>

theorem update_sets_workflow_status:
  assumes "\<not> falsy (getProjectName cfg (html_url (repository p)))"
    and "item_of p = Some item"
    and "find (\<lambda>m. m = Some (user_login item)) (getMaintainers cfg (html_url (repository p)))
           = None"
    and "find (\<lambda>g. nodeId g = node_id item) (githubItems s) = Some g0"
    and "actionItem g0 = Some a"
  shows "\<exists>g a'. find (\<lambda>g. nodeId g = node_id item)
                   (githubItems (fst (createGithubItem cfg s p))) = Some g
           \<and> actionItem g = Some a'
           \<and> (status a' = ''closed'') = (resolvedAt a \<noteq> None)
           \<and> (status a' = ''open'') = (resolvedAt a = None)
           \<and> participants a' = []"
  using update_branch [OF assms] assms(5) by (simp add: update_item_def)

text \<open>
  A stored item that was resolved at T9, with status "open" and two participants: after
  the update its workflow row is "closed" and has no participants.
\<close>

theorem update_sets_workflow_status_witness:
  "\<exists>g a. find (\<lambda>g. nodeId g = ''I_1'')
            (githubItems (fst (createGithubItem cfg_demo db_resolved
                                 (event (item_I1 ''alice'' [''B'', ''C''] ''T2''))))) = Some g
        \<and> actionItem g = Some a \<and> status a = ''closed'' \<and> participants a = []"
proof -
  let ?item = "item_I1 ''alice'' [''B'', ''C''] ''T2''"
  have h1: "\<not> falsy (getProjectName cfg_demo (html_url (repository (event ?item))))"
    by (simp add: scenario falsy_def)
  have h2: "item_of (event ?item) = Some ?item"
    by (simp add: scenario item_of_def)
  have h3: "find (\<lambda>m. m = Some (user_login ?item))
              (getMaintainers cfg_demo (html_url (repository (event ?item)))) = None"
    by (simp add: scenario)
  have h4: "find (\<lambda>g. nodeId g = node_id ?item) (githubItems db_resolved)
              = Some (stored_item 10 ''I_1'' 7 (Some ''T9''))"
    by (simp add: scenario)
  have h5: "actionItem (stored_item 10 ''I_1'' 7 (Some ''T9'')) =
      Some \<lparr>ai_id = 11, status = ''open'', totalReplies = 2, resolvedAt = Some ''T9'',
            participants = [4, 5]\<rparr>"
    by (simp add: scenario)
  have n: "node_id ?item = ''I_1''" by (simp add: item_I1_def)
  from update_sets_workflow_status [OF h1 h2 h3 h4 h5] show ?thesis
    unfolding n by auto
qed

text \<open>
  Claim C9: for every reconciled payload, the created Item's kind is issue exactly when
  the remote node identifier begins with "I_", and pull_request for any other prefix.
  The item is created when the run reaches the upsert and no item with that node
  identifier is stored.
\<close>

theorem created_item_kind_from_node_id:
  assumes "\<not> falsy (getProjectName cfg (html_url (repository p)))"
    and "item_of p = Some item"
    and "find (\<lambda>m. m = Some (user_login item)) (getMaintainers cfg (html_url (repository p)))
           = None"
    and "find (\<lambda>g. nodeId g = node_id item) (githubItems s) = None"
  shows "\<exists>g. find (\<lambda>g. nodeId g = node_id item) (githubItems (fst (createGithubItem cfg s p)))
               = Some g
           \<and> (gi_type g = issue) = startsWith (node_id item) ''I_''
           \<and> (gi_type g = pull_request) = (\<not> startsWith (node_id item) ''I_'')"
  using create_branch [OF assms] by (auto simp: create_item_def)

text \<open>The specification's scenario: the event for node \<open>I_1\<close> on the empty store.\<close>

theorem created_item_kind_from_node_id_witness:
  "\<exists>g. find (\<lambda>g. nodeId g = ''I_1'')
          (githubItems (fst (createGithubItem cfg_demo empty_db
                               (event (item_I1 ''alice'' [''bug''] ''T1''))))) = Some g
        \<and> gi_type g = issue"
proof -
  let ?item = "item_I1 ''alice'' [''bug''] ''T1''"
  have h1: "\<not> falsy (getProjectName cfg_demo (html_url (repository (event ?item))))"
    by (simp add: scenario falsy_def)
  have h2: "item_of (event ?item) = Some ?item"
    by (simp add: scenario item_of_def)
  have h3: "find (\<lambda>m. m = Some (user_login ?item))
              (getMaintainers cfg_demo (html_url (repository (event ?item)))) = None"
    by (simp add: scenario)
  have h4: "find (\<lambda>g. nodeId g = node_id ?item) (githubItems empty_db) = None"
    by (simp add: scenario)
  have n: "node_id ?item = ''I_1''" by (simp add: item_I1_def)
  have sw: "startsWith ''I_1'' ''I_''" by (simp add: startsWith_def)
  from created_item_kind_from_node_id [OF h1 h2 h3 h4] sw show ?thesis
    unfolding n by auto
qed

section \<open>The coordinator's guards\<close>

text \<open>
  Claim C6, as stated: a volunteer who already has an active Volunteer Claim gets the
  already-volunteering outcome, whatever the candidate list.

  Not for every such volunteer: the identity guard (lines 384-390) comes first. A
  volunteer with a claim row and no access token is sent the connect-your-account
  message instead.
\<close>

theorem claimed_but_unlinked_volunteer_is_sent_to_link:
  "volunteerDetail_findFirst db_claimed (usr_id volunteer_unlinked)
     = Some \<lparr>assigneeId = 1, assignedOn = ''T0'', issueId = 20\<rparr>
   \<and> map fst (ar_calls (assignIssueToVolunteer world_X_taken db_claimed ''now'' [cand_X, cand_Y]
                          volunteer_unlinked ''U1'' ''C1''))
     = [PostEphemeral ''U1'' ''C1'' (ConnectGithubFirst ''U1'')]"
  by (simp add: assign_defs scenario)

text \<open>
  Claim C6, amended: when a volunteer who has a linked remote username and access token
  and already has an active Volunteer Claim calls assign with any candidate list, the
  outcome is already-volunteering referencing the existing claim's item (the one message
  sent carries the owner, repository name and number of the item the claim row points
  to), no Volunteer Claim is created, the store is unchanged, and no request goes to the
  remote platform.
\<close>

theorem linked_volunteer_with_claim_is_already_volunteering:
  assumes "\<not> falsy (githubToken user)" and "\<not> falsy (githubUsername user)"
    and "volunteerDetail_findFirst s (usr_id user) = Some v"
  shows "ar_db (assignIssueToVolunteer w s now items user user_id channel_id) = s
    \<and> map fst (ar_calls (assignIssueToVolunteer w s now items user user_id channel_id))
        = [PostEphemeral user_id channel_id
             (OneIssueAtATime
                (map_option repo_owner (included_repository s (included_issue s v)))
                (map_option repo_name (included_repository s (included_issue s v)))
                (map_option number (included_issue s v)))]
    \<and> filter remote_platform_call
         (map fst (ar_calls (assignIssueToVolunteer w s now items user user_id channel_id))) = []
    \<and> ar_logged (assignIssueToVolunteer w s now items user user_id channel_id) = []"
  using assms by (simp add: assignIssueToVolunteer_def postEphemeral_def call_def Let_def)

text \<open>The linked volunteer whose claim row points to item Y, issue 6 of hackclub/slacker.\<close>

theorem linked_volunteer_with_claim_is_already_volunteering_witness:
  "ar_db (assignIssueToVolunteer world_X_taken db_claimed ''now'' [cand_X, cand_Y] volunteer
            ''U1'' ''C1'') = db_claimed
   \<and> ar_calls (assignIssueToVolunteer world_X_taken db_claimed ''now'' [cand_X, cand_Y] volunteer
                 ''U1'' ''C1'')
     = [(PostEphemeral ''U1'' ''C1''
           (OneIssueAtATime (Some ''hackclub'') (Some ''slacker'') (Some 6)), Done)]"
proof -
  have h1: "\<not> falsy (githubToken volunteer)" and h2: "\<not> falsy (githubUsername volunteer)"
    by (simp_all add: scenario falsy_def)
  have h3: "volunteerDetail_findFirst db_claimed (usr_id volunteer)
              = Some \<lparr>assigneeId = 1, assignedOn = ''T0'', issueId = 20\<rparr>"
    by (simp add: scenario volunteerDetail_findFirst_def)
  have "ar_calls (assignIssueToVolunteer world_X_taken db_claimed ''now'' [cand_X, cand_Y]
                    volunteer ''U1'' ''C1'')
     = [(PostEphemeral ''U1'' ''C1''
           (OneIssueAtATime (Some ''hackclub'') (Some ''slacker'') (Some 6)), Done)]"
    by (simp add: assign_defs scenario)
  with linked_volunteer_with_claim_is_already_volunteering
         [OF h1 h2 h3, of world_X_taken "''now''" "[cand_X, cand_Y]" "''U1''" "''C1''"]
  show ?thesis by simp
qed

text \<open>
  Claim C7: when the volunteer lacks a linked remote username or a remote access token
  (the field is null or the empty string), assign gives the needs-identity-link outcome
  without side effects: the store is unchanged, nothing is logged, the only request is
  the Slack message asking to connect the account, and none goes to the remote platform.
\<close>

theorem unlinked_volunteer_needs_identity_link:
  assumes "falsy (githubToken user) \<or> falsy (githubUsername user)"
  shows "ar_db (assignIssueToVolunteer w s now items user user_id channel_id) = s
    \<and> map fst (ar_calls (assignIssueToVolunteer w s now items user user_id channel_id))
        = [PostEphemeral user_id channel_id (ConnectGithubFirst user_id)]
    \<and> filter remote_platform_call
         (map fst (ar_calls (assignIssueToVolunteer w s now items user user_id channel_id))) = []
    \<and> ar_logged (assignIssueToVolunteer w s now items user user_id channel_id) = []"
  using assms by (simp add: assignIssueToVolunteer_def postEphemeral_def call_def)

theorem unlinked_volunteer_needs_identity_link_witness:
  "falsy (githubToken volunteer_unlinked)
   \<and> ar_db (assignIssueToVolunteer world_X_taken db_XY ''now'' [cand_X, cand_Y]
              volunteer_unlinked ''U1'' ''C1'') = db_XY
   \<and> map fst (ar_calls (assignIssueToVolunteer world_X_taken db_XY ''now'' [cand_X, cand_Y]
                          volunteer_unlinked ''U1'' ''C1''))
     = [PostEphemeral ''U1'' ''C1'' (ConnectGithubFirst ''U1'')]"
proof -
  have h: "falsy (githubToken volunteer_unlinked)"
    by (simp add: scenario falsy_def)
  then have "falsy (githubToken volunteer_unlinked) \<or> falsy (githubUsername volunteer_unlinked)" ..
  from unlinked_volunteer_needs_identity_link
         [OF this, of world_X_taken db_XY "''now''" "[cand_X, cand_Y]" "''U1''" "''C1''"] h
  show ?thesis by simp
qed

text \<open>
  Claim C10: for an eligible volunteer (linked identity and token, no existing claim)
  and an empty candidate list, no Volunteer Claim is created and no exception reaches
  the caller: reading \<^verbatim>\<open>items[0].githubItem\<close> raises a TypeError inside the
  \<^verbatim>\<open>try\<close>, which the \<^verbatim>\<open>catch\<close> logs. The call makes no request, leaves the store as
  it was, logs that one exception and its promise is not rejected.
\<close>

theorem empty_candidate_list_is_caught:
  assumes "\<not> falsy (githubToken user)" and "\<not> falsy (githubUsername user)"
    and "volunteerDetail_findFirst s (usr_id user) = None"
  shows "assignIssueToVolunteer w s now [] user user_id channel_id =
           \<lparr>ar_db = s, ar_calls = [], ar_logged = [TypeError], ar_rejected = False\<rparr>"
  using assms by (simp add: assignIssueToVolunteer_def)

theorem empty_candidate_list_is_caught_witness:
  "assignIssueToVolunteer world_X_taken db_XY ''now'' [] volunteer ''U1'' ''C1'' =
     \<lparr>ar_db = db_XY, ar_calls = [], ar_logged = [TypeError], ar_rejected = False\<rparr>"
proof -
  have h1: "\<not> falsy (githubToken volunteer)" and h2: "\<not> falsy (githubUsername volunteer)"
    by (simp_all add: scenario falsy_def)
  have h3: "volunteerDetail_findFirst db_XY (usr_id volunteer) = None"
    by (simp add: scenario volunteerDetail_findFirst_def)
  from empty_candidate_list_is_caught [OF h1 h2 h3] show ?thesis .
qed

end
